theory Spec2Isabelle
  imports Complex_Main
begin

section \<open>Numbers and primitive values\<close>

text \<open>
  The program is TypeScript. Its \<open>number\<close> values are modelled as rationals with exact
  arithmetic: every numeral of the mock data and every JSON number is a decimal
  fraction, and the claims below are about thresholds, defaults and orderings, not
  about rounding in the last binary digit. Counters (\<open>summary.pending\<close> and friends)
  are integers. \<open>NaN\<close> and the infinities cannot occur in a JSON payload and are left out.
\<close>

type_synonym num = rat



section \<open>Gap Driver Engine: the \<open>/api/gap-drivers\<close> handler\<close>

datatype AssetId = east | west

datatype NetworkKey = oil | domesticGas | exportGas | flaredGas

datatype StreamType = stream_oil | stream_export_gas | stream_domestic_gas

datatype FacilityType = flowstation | compressor_station | gas_plant | terminal

datatype Priority = low | medium | high | critical

datatype GapType = throughput | efficiency | maintenance | constraint

datatype GapStatus = active | gap_acknowledged | resolved








fun key_str :: "NetworkKey \<Rightarrow> string" where
  "key_str oil = ''oil''"
| "key_str domesticGas = ''domesticGas''"
| "key_str exportGas = ''exportGas''"
| "key_str flaredGas = ''flaredGas''"
















subsection \<open>The handler's facility data\<close>






















section \<open>Ingestion: the zod schemas of the assets hierarchy\<close>

text \<open>
  A payload is a JSON value. An object is an association list of its properties; a
  property that is absent reads as \<open>undefined\<close>, which is \<open>None\<close> below. Every schema
  takes the possibly undefined input and returns the parsed value or the issue that makes
  \<open>parse\<close> throw its \<open>ZodError\<close> (the first issue stands for the list zod collects).
\<close>

datatype json =
    JNull
  | JBool bool
  | JNum num
  | JStr string
  | JArr "json list"
  | JObj "(string \<times> json) list"

datatype ZodIssue = invalid_type | too_small | invalid_enum_value

definition property :: "(string \<times> json) list \<Rightarrow> string \<Rightarrow> json option" where
  "property kv k = map_of kv k"

definition bindE :: "'e + 'a \<Rightarrow> ('a \<Rightarrow> 'e + 'b) \<Rightarrow> 'e + 'b" where
  "bindE r f = (case r of Inl e \<Rightarrow> Inl e | Inr x \<Rightarrow> f x)"

text \<open>\<open>z.number().nonnegative().default(0)\<close>, with or without \<open>.optional()\<close> before the default.\<close>

definition z_nonnegative_default0 :: "json option \<Rightarrow> ZodIssue + num" where
  "z_nonnegative_default0 j =
     (case j of
        None \<Rightarrow> Inr 0
      | Some (JNum x) \<Rightarrow> if x \<ge> 0 then Inr x else Inl too_small
      | Some _ \<Rightarrow> Inl invalid_type)"

text \<open>\<open>z.number().default(d)\<close>\<close>

definition z_number_default :: "num \<Rightarrow> json option \<Rightarrow> ZodIssue + num" where
  "z_number_default d j =
     (case j of None \<Rightarrow> Inr d | Some (JNum x) \<Rightarrow> Inr x | Some _ \<Rightarrow> Inl invalid_type)"

text \<open>\<open>z.string()\<close> and \<open>z.string().default(d)\<close>\<close>

definition z_string :: "json option \<Rightarrow> ZodIssue + string" where
  "z_string j = (case j of Some (JStr x) \<Rightarrow> Inr x | _ \<Rightarrow> Inl invalid_type)"

definition z_string_default :: "string \<Rightarrow> json option \<Rightarrow> ZodIssue + string" where
  "z_string_default d j =
     (case j of None \<Rightarrow> Inr d | Some (JStr x) \<Rightarrow> Inr x | Some _ \<Rightarrow> Inl invalid_type)"

text \<open>
  \<open>z.enum([...])\<close> over a table of the admitted strings, and the same with a default.
\<close>

definition z_enum :: "(string \<times> 'a) list \<Rightarrow> json option \<Rightarrow> ZodIssue + 'a" where
  "z_enum table j =
     (case j of
        Some (JStr x) \<Rightarrow>
          (case map_of table x of None \<Rightarrow> Inl invalid_enum_value | Some v \<Rightarrow> Inr v)
      | _ \<Rightarrow> Inl invalid_type)"

definition z_enum_default :: "(string \<times> 'a) list \<Rightarrow> 'a \<Rightarrow> json option \<Rightarrow> ZodIssue + 'a" where
  "z_enum_default table d j = (case j of None \<Rightarrow> Inr d | Some _ \<Rightarrow> z_enum table j)"

text \<open>The elements of \<open>z.array(schema)\<close>, parsed in order.\<close>

fun z_elements :: "(json option \<Rightarrow> ZodIssue + 'a) \<Rightarrow> json list \<Rightarrow> ZodIssue + 'a list" where
  "z_elements schema [] = Inr []"
| "z_elements schema (j # js) =
     bindE (schema (Some j)) (\<lambda>x. bindE (z_elements schema js) (\<lambda>xs. Inr (x # xs)))"

text \<open>\<open>z.array(schema).default([])\<close> and \<open>z.array(schema)\<close>\<close>

definition z_array_default_empty ::
  "(json option \<Rightarrow> ZodIssue + 'a) \<Rightarrow> json option \<Rightarrow> ZodIssue + 'a list" where
  "z_array_default_empty schema j =
     (case j of
        None \<Rightarrow> Inr []
      | Some (JArr js) \<Rightarrow> z_elements schema js
      | Some _ \<Rightarrow> Inl invalid_type)"

definition z_array :: "(json option \<Rightarrow> ZodIssue + 'a) \<Rightarrow> json option \<Rightarrow> ZodIssue + 'a list" where
  "z_array schema j =
     (case j of Some (JArr js) \<Rightarrow> z_elements schema js | _ \<Rightarrow> Inl invalid_type)"

text \<open>\<open>schema.optional()\<close>\<close>

definition z_optional ::
  "(json option \<Rightarrow> ZodIssue + 'a) \<Rightarrow> json option \<Rightarrow> ZodIssue + 'a option" where
  "z_optional schema j =
     (case j of None \<Rightarrow> Inr None | Some _ \<Rightarrow> bindE (schema j) (\<lambda>x. Inr (Some x)))"

subsection \<open>Network metrics\<close>

datatype Trend = trend_up | trend_down | trend_stable

definition TrendSchema_table :: "(string \<times> Trend) list" where
  "TrendSchema_table = [(''up'', trend_up), (''down'', trend_down), (''stable'', trend_stable)]"

record NetworkMetrics =
  nm_maxCapacity :: num
  nm_businessTarget :: num
  nm_currentProduction :: num
  nm_deferment :: num
  nm_unit :: string
  nm_trend :: Trend
  nm_changePercent :: num

text \<open>Default metrics used for flared gas to ensure presence across all levels.\<close>

definition DEFAULT_FLARED_GAS_METRICS :: NetworkMetrics where
  "DEFAULT_FLARED_GAS_METRICS = \<lparr>
     nm_maxCapacity = 0,
     nm_businessTarget = 0,
     nm_currentProduction = 0,
     nm_deferment = 0,
     nm_unit = ''mcf/d'',
     nm_trend = trend_stable,
     nm_changePercent = 0 \<rparr>"

text \<open>The same object literal where it is handed to a schema as the input to parse.\<close>

definition DEFAULT_FLARED_GAS_METRICS_input :: json where
  "DEFAULT_FLARED_GAS_METRICS_input = JObj [
     (''maxCapacity'', JNum 0),
     (''businessTarget'', JNum 0),
     (''currentProduction'', JNum 0),
     (''deferment'', JNum 0),
     (''unit'', JStr ''mcf/d''),
     (''trend'', JStr ''stable''),
     (''changePercent'', JNum 0)]"

definition NetworkMetricsSchema :: "json option \<Rightarrow> ZodIssue + NetworkMetrics" where
  "NetworkMetricsSchema j =
     (case j of
        Some (JObj kv) \<Rightarrow>
          bindE (z_nonnegative_default0 (property kv ''maxCapacity'')) (\<lambda>maxCapacity.
          bindE (z_nonnegative_default0 (property kv ''businessTarget'')) (\<lambda>businessTarget.
          bindE (z_nonnegative_default0 (property kv ''currentProduction'')) (\<lambda>currentProduction.
          bindE (z_nonnegative_default0 (property kv ''deferment'')) (\<lambda>deferment.
          bindE (z_string_default ''bbl/d'' (property kv ''unit'')) (\<lambda>unit.
          bindE (z_enum_default TrendSchema_table trend_stable (property kv ''trend'')) (\<lambda>trend.
          bindE (z_number_default 0 (property kv ''changePercent'')) (\<lambda>changePercent.
          Inr \<lparr> nm_maxCapacity = maxCapacity,
                nm_businessTarget = businessTarget,
                nm_currentProduction = currentProduction,
                nm_deferment = deferment,
                nm_unit = unit,
                nm_trend = trend,
                nm_changePercent = changePercent \<rparr>)))))))
      | _ \<Rightarrow> Inl invalid_type)"

text \<open>
  The networks object of a facility or a unit after parsing: a key that the input does
  not have is not in the output either.
\<close>

record Networks =
  nw_oil :: "NetworkMetrics option"
  nw_domesticGas :: "NetworkMetrics option"
  nw_exportGas :: "NetworkMetrics option"
  nw_flaredGas :: "NetworkMetrics option"

text \<open>
  \<open>z.object({ oil: NetworkMetricsSchema.optional(), ... }).partial()\<close>: the object that
  all three networks schemas start from. Unknown keys are stripped.
\<close>

definition networks_object :: "json option \<Rightarrow> ZodIssue + Networks" where
  "networks_object j =
     (case j of
        Some (JObj kv) \<Rightarrow>
          bindE (z_optional NetworkMetricsSchema (property kv ''oil'')) (\<lambda>oil.
          bindE (z_optional NetworkMetricsSchema (property kv ''domesticGas'')) (\<lambda>domesticGas.
          bindE (z_optional NetworkMetricsSchema (property kv ''exportGas'')) (\<lambda>exportGas.
          bindE (z_optional NetworkMetricsSchema (property kv ''flaredGas'')) (\<lambda>flaredGas.
          Inr \<lparr> nw_oil = oil, nw_domesticGas = domesticGas,
                nw_exportGas = exportGas, nw_flaredGas = flaredGas \<rparr>))))
      | _ \<Rightarrow> Inl invalid_type)"

text \<open>
  \<open>{ ...DEFAULT_FLARED_GAS_METRICS, ...flared }\<close>: every own key of \<open>flared\<close> overrides,
  and a parsed metrics object owns all seven keys.
\<close>

definition spread_metrics :: "NetworkMetrics \<Rightarrow> NetworkMetrics \<Rightarrow> NetworkMetrics" where
  "spread_metrics base flared = \<lparr>
     nm_maxCapacity = nm_maxCapacity flared,
     nm_businessTarget = nm_businessTarget flared,
     nm_currentProduction = nm_currentProduction flared,
     nm_deferment = nm_deferment flared,
     nm_unit = nm_unit flared,
     nm_trend = nm_trend flared,
     nm_changePercent = nm_changePercent flared \<rparr>"

text \<open>The \<open>.transform\<close> callback shared, verbatim, by the networks schemas.\<close>

definition flared_transform :: "Networks \<Rightarrow> Networks" where
  "flared_transform existing =
     (let flared = (case nw_flaredGas existing of
                      None \<Rightarrow> DEFAULT_FLARED_GAS_METRICS | Some f \<Rightarrow> f)
      in existing \<lparr> nw_flaredGas := Some (spread_metrics DEFAULT_FLARED_GAS_METRICS flared) \<rparr>)"

text \<open>The argument of \<open>.default({ flaredGas: DEFAULT_FLARED_GAS_METRICS })\<close>.\<close>

definition default_networks_input :: json where
  "default_networks_input = JObj [(''flaredGas'', DEFAULT_FLARED_GAS_METRICS_input)]"

definition FacilityNetworksSchema :: "json option \<Rightarrow> ZodIssue + Networks" where
  "FacilityNetworksSchema j =
     bindE (networks_object (case j of None \<Rightarrow> Some default_networks_input | Some _ \<Rightarrow> j))
       (\<lambda>networks. Inr (flared_transform networks))"

definition UnitNetworksSchema :: "json option \<Rightarrow> ZodIssue + Networks" where
  "UnitNetworksSchema j =
     bindE (networks_object (case j of None \<Rightarrow> Some default_networks_input | Some _ \<Rightarrow> j))
       (\<lambda>networks. Inr (flared_transform networks))"

subsection \<open>Facilities, production units, assets\<close>

definition FacilityTypeSchema_table :: "(string \<times> FacilityType) list" where
  "FacilityTypeSchema_table = [(''flowstation'', flowstation),
     (''compressor-station'', compressor_station), (''gas-plant'', gas_plant),
     (''terminal'', terminal)]"

record FacilityRef =
  fr_id :: string
  fr_type :: FacilityType
  fr_networks :: Networks

definition FacilityRefSchema :: "json option \<Rightarrow> ZodIssue + FacilityRef" where
  "FacilityRefSchema j =
     (case j of
        Some (JObj kv) \<Rightarrow>
          bindE (z_string (property kv ''id'')) (\<lambda>id.
          bindE (z_enum FacilityTypeSchema_table (property kv ''type'')) (\<lambda>type.
          bindE (FacilityNetworksSchema
                   (case property kv ''networks'' of
                      None \<Rightarrow> Some default_networks_input | Some n \<Rightarrow> Some n)) (\<lambda>networks.
          Inr \<lparr> fr_id = id, fr_type = type, fr_networks = networks \<rparr>)))
      | _ \<Rightarrow> Inl invalid_type)"

datatype UnitStatus = unit_online | unit_offline | unit_maintenance | unit_startup

definition UnitStatus_table :: "(string \<times> UnitStatus) list" where
  "UnitStatus_table = [(''online'', unit_online), (''offline'', unit_offline),
     (''maintenance'', unit_maintenance), (''startup'', unit_startup)]"

record ProductionUnit =
  pu_id :: string
  pu_name :: string
  pu_status :: UnitStatus
  pu_equipmentCount :: num
  pu_activeEquipment :: num
  pu_lastUpdated :: string
  pu_facilities :: "FacilityRef list"
  pu_networks :: Networks

definition ProductionUnitSchema :: "json option \<Rightarrow> ZodIssue + ProductionUnit" where
  "ProductionUnitSchema j =
     (case j of
        Some (JObj kv) \<Rightarrow>
          bindE (z_string (property kv ''id'')) (\<lambda>id.
          bindE (z_string (property kv ''name'')) (\<lambda>name.
          bindE (z_enum_default UnitStatus_table unit_online (property kv ''status'')) (\<lambda>status.
          bindE (z_nonnegative_default0 (property kv ''equipmentCount'')) (\<lambda>equipmentCount.
          bindE (z_nonnegative_default0 (property kv ''activeEquipment'')) (\<lambda>activeEquipment.
          bindE (z_string (property kv ''lastUpdated'')) (\<lambda>lastUpdated.
          bindE (z_array_default_empty FacilityRefSchema (property kv ''facilities'')) (\<lambda>facilities.
          bindE (UnitNetworksSchema (property kv ''networks'')) (\<lambda>networks.
          Inr \<lparr> pu_id = id, pu_name = name, pu_status = status,
                pu_equipmentCount = equipmentCount, pu_activeEquipment = activeEquipment,
                pu_lastUpdated = lastUpdated, pu_facilities = facilities,
                pu_networks = networks \<rparr>))))))))
      | _ \<Rightarrow> Inl invalid_type)"

datatype PerformanceTrend = increasing | performance_stable | decreasing

definition PerformanceTrend_table :: "(string \<times> PerformanceTrend) list" where
  "PerformanceTrend_table = [(''increasing'', increasing), (''stable'', performance_stable),
     (''decreasing'', decreasing)]"

record AssetPerformance =
  ap_currentProduction :: num
  ap_capacity :: num
  ap_businessTarget :: num
  ap_deferment :: num
  ap_trend :: PerformanceTrend
  ap_changePercent :: num

definition AssetPerformanceSchema :: "json option \<Rightarrow> ZodIssue + AssetPerformance" where
  "AssetPerformanceSchema j =
     (case j of
        Some (JObj kv) \<Rightarrow>
          bindE (z_nonnegative_default0 (property kv ''currentProduction'')) (\<lambda>currentProduction.
          bindE (z_nonnegative_default0 (property kv ''capacity'')) (\<lambda>capacity.
          bindE (z_nonnegative_default0 (property kv ''businessTarget'')) (\<lambda>businessTarget.
          bindE (z_nonnegative_default0 (property kv ''deferment'')) (\<lambda>deferment.
          bindE (z_enum_default PerformanceTrend_table performance_stable
                   (property kv ''trend'')) (\<lambda>trend.
          bindE (z_number_default 0 (property kv ''changePercent'')) (\<lambda>changePercent.
          Inr \<lparr> ap_currentProduction = currentProduction, ap_capacity = capacity,
                ap_businessTarget = businessTarget, ap_deferment = deferment,
                ap_trend = trend, ap_changePercent = changePercent \<rparr>))))))
      | _ \<Rightarrow> Inl invalid_type)"

record AssetSummary =
  as_totalUnits :: num
  as_activeUnits :: num
  as_offlineUnits :: num

definition AssetSummarySchema :: "json option \<Rightarrow> ZodIssue + AssetSummary" where
  "AssetSummarySchema j =
     (case j of
        Some (JObj kv) \<Rightarrow>
          bindE (z_nonnegative_default0 (property kv ''totalUnits'')) (\<lambda>totalUnits.
          bindE (z_nonnegative_default0 (property kv ''activeUnits'')) (\<lambda>activeUnits.
          bindE (z_nonnegative_default0 (property kv ''offlineUnits'')) (\<lambda>offlineUnits.
          Inr \<lparr> as_totalUnits = totalUnits, as_activeUnits = activeUnits,
                as_offlineUnits = offlineUnits \<rparr>)))
      | _ \<Rightarrow> Inl invalid_type)"

record AssetConstraints =
  ac_active :: num
  ac_critical :: num
  ac_warning :: num

definition AssetConstraintsSchema :: "json option \<Rightarrow> ZodIssue + AssetConstraints" where
  "AssetConstraintsSchema j =
     (case j of
        Some (JObj kv) \<Rightarrow>
          bindE (z_nonnegative_default0 (property kv ''active'')) (\<lambda>active.
          bindE (z_nonnegative_default0 (property kv ''critical'')) (\<lambda>critical.
          bindE (z_nonnegative_default0 (property kv ''warning'')) (\<lambda>warning.
          Inr \<lparr> ac_active = active, ac_critical = critical, ac_warning = warning \<rparr>)))
      | _ \<Rightarrow> Inl invalid_type)"

datatype AssetStatus = status_normal | status_warning | status_critical

definition AssetId_table :: "(string \<times> AssetId) list" where
  "AssetId_table = [(''east'', east), (''west'', west)]"

definition AssetStatus_table :: "(string \<times> AssetStatus) list" where
  "AssetStatus_table = [(''normal'', status_normal), (''warning'', status_warning),
     (''critical'', status_critical)]"

record AssetItem =
  ai_id :: AssetId
  ai_name :: string
  ai_status :: AssetStatus
  ai_performance :: AssetPerformance
  ai_productionUnits :: "ProductionUnit list"
  ai_summary :: AssetSummary
  ai_constraints :: AssetConstraints

definition AssetItemSchema :: "json option \<Rightarrow> ZodIssue + AssetItem" where
  "AssetItemSchema j =
     (case j of
        Some (JObj kv) \<Rightarrow>
          bindE (z_enum AssetId_table (property kv ''id'')) (\<lambda>id.
          bindE (z_string (property kv ''name'')) (\<lambda>name.
          bindE (z_enum_default AssetStatus_table status_normal (property kv ''status'')) (\<lambda>status.
          bindE (AssetPerformanceSchema (property kv ''performance'')) (\<lambda>performance.
          bindE (z_array_default_empty ProductionUnitSchema
                   (property kv ''productionUnits'')) (\<lambda>productionUnits.
          bindE (AssetSummarySchema (property kv ''summary'')) (\<lambda>summary.
          bindE (AssetConstraintsSchema (property kv ''constraints'')) (\<lambda>constraints.
          Inr \<lparr> ai_id = id, ai_name = name, ai_status = status,
                ai_performance = performance, ai_productionUnits = productionUnits,
                ai_summary = summary, ai_constraints = constraints \<rparr>)))))))
      | _ \<Rightarrow> Inl invalid_type)"

record Comparison =
  cmp_productionDifference :: num
  cmp_trend :: string

definition ComparisonSchema :: "json option \<Rightarrow> ZodIssue + Comparison" where
  "ComparisonSchema j =
     (case j of
        Some (JObj kv) \<Rightarrow>
          bindE (z_number_default 0 (property kv ''productionDifference'')) (\<lambda>productionDifference.
          bindE (z_string_default [] (property kv ''trend'')) (\<lambda>trend.
          Inr \<lparr> cmp_productionDifference = productionDifference, cmp_trend = trend \<rparr>))
      | _ \<Rightarrow> Inl invalid_type)"

record AssetsResponse =
  ar_assets :: "AssetItem list"
  ar_comparison :: Comparison
  ar_timestamp :: string

definition AssetsResponseSchema :: "json option \<Rightarrow> ZodIssue + AssetsResponse" where
  "AssetsResponseSchema j =
     (case j of
        Some (JObj kv) \<Rightarrow>
          bindE (z_array AssetItemSchema (property kv ''assets'')) (\<lambda>assets.
          bindE (ComparisonSchema (property kv ''comparison'')) (\<lambda>comparison.
          bindE (z_string (property kv ''timestamp'')) (\<lambda>timestamp.
          Inr \<lparr> ar_assets = assets, ar_comparison = comparison,
                ar_timestamp = timestamp \<rparr>)))
      | _ \<Rightarrow> Inl invalid_type)"

text \<open>
  The \<open>queryFn\<close> of \<open>useAssets\<close> on the body of a response that arrived:
  \<open>return AssetsResponseSchema.parse(response.data)\<close>. \<open>Inl\<close> is the thrown \<open>ZodError\<close>,
  which rejects the query.
\<close>

definition useAssets_queryFn :: "json \<Rightarrow> ZodIssue + AssetsResponse" where
  "useAssets_queryFn data = AssetsResponseSchema (Some data)"

text \<open>
  The first facility of the \<open>/api/assets\<close> mock, \<open>flowstation-001\<close>, as the handler
  sends it.
\<close>

definition flowstation_001_oil :: "(string \<times> json) list" where
  "flowstation_001_oil = [
     (''maxCapacity'', JNum 5000),
     (''businessTarget'', JNum 4200),
     (''currentProduction'', JNum 3800),
     (''deferment'', JNum 1200),
     (''unit'', JStr ''bbl/d''),
     (''trend'', JStr ''down''),
     (''changePercent'', JNum (- 13 / 10))]"

definition flowstation_001_flaredGas :: "(string \<times> json) list" where
  "flowstation_001_flaredGas = [
     (''maxCapacity'', JNum 800),
     (''businessTarget'', JNum 600),
     (''currentProduction'', JNum 500),
     (''deferment'', JNum 300),
     (''unit'', JStr ''mcf/d''),
     (''trend'', JStr ''stable''),
     (''changePercent'', JNum 0)]"

definition flowstation_001_networks :: "(string \<times> json) list" where
  "flowstation_001_networks = [
     (''oil'', JObj flowstation_001_oil),
     (''flaredGas'', JObj flowstation_001_flaredGas)]"

definition flowstation_001_properties :: "(string \<times> json) list" where
  "flowstation_001_properties = [
     (''id'', JStr ''flowstation-001''),
     (''type'', JStr ''flowstation''),
     (''networks'', JObj flowstation_001_networks)]"

definition flowstation_001_payload :: json where
  "flowstation_001_payload = JObj flowstation_001_properties"

subsection \<open>Reading a payload\<close>

text \<open>
  Accessors used to state properties of a payload: the property of a value that may not
  be an object, the elements of a value that may not be an array, the facilities a
  hierarchy payload carries (\<open>assets[*].productionUnits[*].facilities[*]\<close>), and whether
  the source of a networks object says nothing about flared gas.
\<close>

definition obj_prop :: "json \<Rightarrow> string \<Rightarrow> json option" where
  "obj_prop j k = (case j of JObj kv \<Rightarrow> property kv k | _ \<Rightarrow> None)"

definition elements :: "json option \<Rightarrow> json list" where
  "elements j = (case j of Some (JArr js) \<Rightarrow> js | _ \<Rightarrow> [])"

definition payload_units :: "json \<Rightarrow> json list" where
  "payload_units data =
     concat (map (\<lambda>a. elements (obj_prop a ''productionUnits''))
       (elements (obj_prop data ''assets'')))"

definition payload_facilities :: "json \<Rightarrow> json list" where
  "payload_facilities data =
     concat (map (\<lambda>u. elements (obj_prop u ''facilities'')) (payload_units data))"

definition source_lacks_flaredGas :: "json option \<Rightarrow> bool" where
  "source_lacks_flaredGas networks =
     (case networks of
        None \<Rightarrow> True
      | Some (JObj kv) \<Rightarrow> property kv ''flaredGas'' = None
      | Some _ \<Rightarrow> False)"

definition network_of :: "NetworkKey \<Rightarrow> Networks \<Rightarrow> NetworkMetrics option" where
  "network_of k n =
     (case k of oil \<Rightarrow> nw_oil n | domesticGas \<Rightarrow> nw_domesticGas n
      | exportGas \<Rightarrow> nw_exportGas n | flaredGas \<Rightarrow> nw_flaredGas n)"

text \<open>The deferment a metrics object of the feed supplies, \<open>0\<close> when it supplies none.\<close>

definition supplied_deferment :: "(string \<times> json) list \<Rightarrow> num" where
  "supplied_deferment kv = (case property kv ''deferment'' of Some (JNum d) \<Rightarrow> d | _ \<Rightarrow> 0)"

subsection \<open>Sample payloads\<close>

text \<open>
  A facility that gives only its id and type, one that gives no type, and hierarchy
  payloads around them: one asset with one production unit that lists
  \<open>flowstation-001\<close> and a second facility.
\<close>

definition bare_facility_properties :: "(string \<times> json) list" where
  "bare_facility_properties = [(''id'', JStr ''gasplant-009''), (''type'', JStr ''gas-plant'')]"

definition bare_facility :: json where
  "bare_facility = JObj bare_facility_properties"

definition untyped_facility :: json where
  "untyped_facility =
     JObj [(''id'', JStr ''gasplant-009''), (''unitId'', JStr ''east-production-unit-01'')]"

definition sample_unit_properties :: "json \<Rightarrow> (string \<times> json) list" where
  "sample_unit_properties second_facility = [
     (''id'', JStr ''east-production-unit-01''),
     (''name'', JStr ''Soku Production Unit''),
     (''status'', JStr ''online''),
     (''equipmentCount'', JNum 8),
     (''activeEquipment'', JNum 7),
     (''lastUpdated'', JStr ''2025-01-01T00:00:00.000Z''),
     (''facilities'', JArr [flowstation_001_payload, second_facility])]"

definition hierarchy_payload :: "json \<Rightarrow> json" where
  "hierarchy_payload second_facility = JObj [
     (''assets'', JArr [JObj [
        (''id'', JStr ''east''),
        (''name'', JStr ''East Asset''),
        (''status'', JStr ''normal''),
        (''performance'', JObj [(''currentProduction'', JNum 45000), (''capacity'', JNum 55000),
           (''businessTarget'', JNum 50000), (''deferment'', JNum 5000),
           (''trend'', JStr ''stable''), (''changePercent'', JNum (21 / 10))]),
        (''productionUnits'', JArr [JObj (sample_unit_properties second_facility)]),
        (''summary'', JObj [(''totalUnits'', JNum 1), (''activeUnits'', JNum 1),
           (''offlineUnits'', JNum 0)]),
        (''constraints'', JObj [(''active'', JNum 0), (''critical'', JNum 0),
           (''warning'', JNum 0)])]]),
     (''comparison'', JObj [(''productionDifference'', JNum 0), (''trend'', JStr [])]),
     (''timestamp'', JStr ''2025-01-01T00:00:00.000Z'')]"

section \<open>The query cache as the hooks use it\<close>

text \<open>
  The hooks keep their data in the query client of the query library. What the hooks
  rely on is modelled here: a cache is the list of its queries in insertion order, each
  with its key, its data (\<open>None\<close> is \<open>undefined\<close>) and its invalidation flag. The keys of
  a cache are pairwise distinct, since the library stores queries by the hash of the key.
\<close>

type_synonym QueryKey = "json list"

record 'd Query =
  q_key :: QueryKey
  q_data :: "'d option"
  q_isInvalidated :: bool

type_synonym 'd QueryCache = "'d Query list"

text \<open>
  A filter \<open>{ queryKey: [...] }\<close> matches the queries whose key starts with the filter's
  key. All filter keys in this program are arrays of strings, for which the library's
  partial matching is equality element by element.
\<close>

fun partialMatchKey :: "QueryKey \<Rightarrow> string list \<Rightarrow> bool" where
  "partialMatchKey key [] = True"
| "partialMatchKey [] (f # fs) = False"
| "partialMatchKey (k # ks) (f # fs) = (k = JStr f \<and> partialMatchKey ks fs)"

definition findAll :: "string list \<Rightarrow> 'd QueryCache \<Rightarrow> 'd Query list" where
  "findAll filterKey cache = filter (\<lambda>q. partialMatchKey (q_key q) filterKey) cache"

definition getQueryData :: "QueryKey \<Rightarrow> 'd QueryCache \<Rightarrow> 'd option" where
  "getQueryData key cache =
     (case find (\<lambda>q. q_key q = key) cache of None \<Rightarrow> None | Some q \<Rightarrow> q_data q)"

definition getQueriesData :: "string list \<Rightarrow> 'd QueryCache \<Rightarrow> (QueryKey \<times> 'd option) list" where
  "getQueriesData filterKey cache = map (\<lambda>q. (q_key q, q_data q)) (findAll filterKey cache)"

text \<open>
  \<open>setQueryData(key, data)\<close>: nothing happens when the data is \<open>undefined\<close>; otherwise the
  query with that key (built if there is none) receives the data as a successful, fresh
  result.
\<close>

definition setQueryData :: "QueryKey \<Rightarrow> 'd option \<Rightarrow> 'd QueryCache \<Rightarrow> 'd QueryCache" where
  "setQueryData key data cache =
     (case data of
        None \<Rightarrow> cache
      | Some d \<Rightarrow>
          if list_ex (\<lambda>q. q_key q = key) cache
          then map (\<lambda>q. if q_key q = key
                         then q \<lparr> q_data := Some d, q_isInvalidated := False \<rparr> else q) cache
          else cache @ [\<lparr> q_key = key, q_data = Some d, q_isInvalidated = False \<rparr>])"

text \<open>
  \<open>setQueriesData(filters, updater)\<close> calls \<open>setQueryData(key, updater)\<close> for the matching
  queries one after the other. An updater that throws ends the loop there: the queries
  already updated stay updated, and the exception leaves the call.
\<close>

fun update_each ::
  "('d option \<Rightarrow> 'e + 'd option) \<Rightarrow> QueryKey list \<Rightarrow> 'd QueryCache \<Rightarrow> 'd QueryCache \<times> 'e option" where
  "update_each updater [] cache = (cache, None)"
| "update_each updater (key # keys) cache =
     (case updater (getQueryData key cache) of
        Inl e \<Rightarrow> (cache, Some e)
      | Inr data \<Rightarrow> update_each updater keys (setQueryData key data cache))"

definition setQueriesData ::
  "string list \<Rightarrow> ('d option \<Rightarrow> 'e + 'd option) \<Rightarrow> 'd QueryCache \<Rightarrow> 'd QueryCache \<times> 'e option" where
  "setQueriesData filterKey updater cache =
     update_each updater (map q_key (findAll filterKey cache)) cache"

text \<open>
  \<open>invalidateQueries(filters)\<close> marks every matching query as invalidated. The refetch of
  the queries that are mounted is asynchronous and not part of the model.
\<close>

definition invalidateQueries :: "string list \<Rightarrow> 'd QueryCache \<Rightarrow> 'd QueryCache" where
  "invalidateQueries filterKey cache =
     map (\<lambda>q. if partialMatchKey (q_key q) filterKey
               then q \<lparr> q_isInvalidated := True \<rparr> else q) cache"

section \<open>Mutation Coordinator: acknowledge and implement\<close>

datatype OptimisationStatus = pending | acknowledged | implementing | completed | rejected

record OptimisationAction =
  opt_id :: string
  opt_stream :: StreamType
  opt_title :: string
  opt_status :: OptimisationStatus
  opt_priority :: num
  opt_acknowledgedAt :: "string option"

record OptimisationSummary =
  sum_total :: int
  sum_pending :: int
  sum_acknowledged :: int
  sum_implemented :: int
  sum_totalPotentialValue :: num

record OptimisationResponse =
  optimisations :: "OptimisationAction list"
  summary :: OptimisationSummary

record OptimisationActionUpdate =
  upd_id :: string
  upd_userId :: "string option"
  upd_comment :: "string option"

text \<open>
  What the hooks of this file put under keys that start with \<open>'optimisations'\<close>:
  \<open>useOptimisations\<close> and \<open>useAssetOptimisations\<close> store the response object,
  \<open>useHighPriorityOptimisations\<close> stores \<open>response.data.optimisations\<close>, the bare array.
\<close>

datatype OptimisationData =
    ResponseData OptimisationResponse
  | ActionArray "OptimisationAction list"

datatype JsError = TypeError | RequestFailed string

text \<open>
  The body of the acknowledge updater after \<open>if (!old) return old\<close>. \<open>now\<close> is
  \<open>new Date().toISOString()\<close>.
\<close>

definition acknowledge_transform ::
  "string \<Rightarrow> OptimisationActionUpdate \<Rightarrow> OptimisationResponse \<Rightarrow> OptimisationResponse" where
  "acknowledge_transform now update old =
     old \<lparr> optimisations :=
             map (\<lambda>opt. if opt_id opt = upd_id update
                         then opt \<lparr> opt_status := acknowledged, opt_acknowledgedAt := Some now \<rparr>
                         else opt) (optimisations old),
           summary :=
             (summary old) \<lparr> sum_pending := sum_pending (summary old) - 1,
                             sum_acknowledged := sum_acknowledged (summary old) + 1 \<rparr> \<rparr>"

definition implement_transform ::
  "OptimisationActionUpdate \<Rightarrow> OptimisationResponse \<Rightarrow> OptimisationResponse" where
  "implement_transform update old =
     old \<lparr> optimisations :=
             map (\<lambda>opt. if opt_id opt = upd_id update
                         then opt \<lparr> opt_status := completed \<rparr>
                         else opt) (optimisations old),
           summary :=
             (summary old) \<lparr> sum_pending := sum_pending (summary old) - 1,
                             sum_implemented := sum_implemented (summary old) + 1 \<rparr> \<rparr>"

text \<open>
  The updaters as \<open>setQueriesData\<close> calls them. An array is truthy and has no
  \<open>optimisations\<close> property, so \<open>old.optimisations.map\<close> throws a \<open>TypeError\<close> on it.
\<close>

definition acknowledge_updater ::
  "string \<Rightarrow> OptimisationActionUpdate \<Rightarrow> OptimisationData option
     \<Rightarrow> JsError + OptimisationData option" where
  "acknowledge_updater now update old =
     (case old of
        None \<Rightarrow> Inr None
      | Some (ResponseData r) \<Rightarrow> Inr (Some (ResponseData (acknowledge_transform now update r)))
      | Some (ActionArray xs) \<Rightarrow> Inl TypeError)"

definition implement_updater ::
  "OptimisationActionUpdate \<Rightarrow> OptimisationData option \<Rightarrow> JsError + OptimisationData option" where
  "implement_updater update old =
     (case old of
        None \<Rightarrow> Inr None
      | Some (ResponseData r) \<Rightarrow> Inr (Some (ResponseData (implement_transform update r)))
      | Some (ActionArray xs) \<Rightarrow> Inl TypeError)"

type_synonym MutationContext = "(QueryKey \<times> OptimisationData option) list"

text \<open>
  \<open>onMutate\<close>: snapshot, then the optimistic update. The result is the cache as
  \<open>onMutate\<close> leaves it, with the context it returns or the exception it throws.
  \<open>cancelQueries\<close> stops fetches that are under way; the model has none.
\<close>

definition acknowledge_onMutate ::
  "string \<Rightarrow> OptimisationActionUpdate \<Rightarrow> OptimisationData QueryCache
     \<Rightarrow> OptimisationData QueryCache \<times> (JsError + MutationContext)" where
  "acknowledge_onMutate now update cache =
     (let previousData = getQueriesData [''optimisations''] cache;
          res = setQueriesData [''optimisations''] (acknowledge_updater now update) cache
      in case snd res of
           None \<Rightarrow> (fst res, Inr previousData)
         | Some e \<Rightarrow> (fst res, Inl e))"

definition implement_onMutate ::
  "OptimisationActionUpdate \<Rightarrow> OptimisationData QueryCache
     \<Rightarrow> OptimisationData QueryCache \<times> (JsError + MutationContext)" where
  "implement_onMutate update cache =
     (let previousData = getQueriesData [''optimisations''] cache;
          res = setQueriesData [''optimisations''] (implement_updater update) cache
      in case snd res of
           None \<Rightarrow> (fst res, Inr previousData)
         | Some e \<Rightarrow> (fst res, Inl e))"

text \<open>
  \<open>onError\<close>: rollback when there is a context (\<open>context?.previousData\<close>), entry by entry.
\<close>

definition onError ::
  "MutationContext option \<Rightarrow> OptimisationData QueryCache \<Rightarrow> OptimisationData QueryCache" where
  "onError context cache =
     (case context of
        None \<Rightarrow> cache
      | Some previousData \<Rightarrow> fold (\<lambda>entry c. setQueryData (fst entry) (snd entry) c) previousData cache)"

definition acknowledge_onSettled :: "'d QueryCache \<Rightarrow> 'd QueryCache" where
  "acknowledge_onSettled cache = invalidateQueries [''optimisations''] cache"

definition implement_onSettled :: "'d QueryCache \<Rightarrow> 'd QueryCache" where
  "implement_onSettled cache =
     invalidateQueries [''nodes'']
       (invalidateQueries [''summary''] (invalidateQueries [''optimisations''] cache))"

text \<open>
  One run of the acknowledge mutation, in the order the library calls the callbacks.
  \<open>response\<close> is what \<open>mutationFn\<close> (the PATCH request) ends with. When \<open>onMutate\<close> throws,
  \<open>mutationFn\<close> is not called, and \<open>onError\<close> and \<open>onSettled\<close> run without a context.
\<close>

definition acknowledge_mutation ::
  "string \<Rightarrow> OptimisationActionUpdate \<Rightarrow> JsError + OptimisationAction
     \<Rightarrow> OptimisationData QueryCache
     \<Rightarrow> OptimisationData QueryCache \<times> (JsError + OptimisationAction)" where
  "acknowledge_mutation now update response cache =
     (let m = acknowledge_onMutate now update cache
      in case snd m of
           Inl e \<Rightarrow> (acknowledge_onSettled (onError None (fst m)), Inl e)
         | Inr context \<Rightarrow>
             (case response of
                Inl e \<Rightarrow> (acknowledge_onSettled (onError (Some context) (fst m)), Inl e)
              | Inr action \<Rightarrow> (acknowledge_onSettled (fst m), Inr action)))"

subsection \<open>What a successful update and a rollback do to one query\<close>

text \<open>
  The effect of \<open>setQueryData(key, updater)\<close> on the query it addresses when the updater
  returns, and the effect of the rollback loop on a query, read off the snapshot.
\<close>

definition apply_updater :: "('d option \<Rightarrow> 'e + 'd option) \<Rightarrow> 'd Query \<Rightarrow> 'd Query" where
  "apply_updater updater q =
     (case updater (q_data q) of
        Inr (Some d) \<Rightarrow> q \<lparr> q_data := Some d, q_isInvalidated := False \<rparr>
      | _ \<Rightarrow> q)"

definition restore_entry :: "(QueryKey \<times> 'd option) list \<Rightarrow> 'd Query \<Rightarrow> 'd Query" where
  "restore_entry previousData q =
     (case map_of previousData (q_key q) of
        Some (Some d) \<Rightarrow> q \<lparr> q_data := Some d, q_isInvalidated := False \<rparr>
      | _ \<Rightarrow> q)"

text \<open>
  A cache in which no query under \<open>'optimisations'\<close> holds a bare array: each holds a
  response object or no data yet.
\<close>

definition response_shaped :: "OptimisationData QueryCache \<Rightarrow> bool" where
  "response_shaped cache =
     list_all (\<lambda>q. partialMatchKey (q_key q) [''optimisations''] \<longrightarrow>
                 (case q_data q of Some (ActionArray xs) \<Rightarrow> False | _ \<Rightarrow> True)) cache"

subsection \<open>Sample optimisations and caches\<close>

definition opt_001 :: OptimisationAction where
  "opt_001 = \<lparr> opt_id = ''opt-001'', opt_stream = stream_oil,
     opt_title = ''Adjust choke on East Well 001'', opt_status = acknowledged,
     opt_priority = 8, opt_acknowledgedAt = None \<rparr>"

definition opt_002 :: OptimisationAction where
  "opt_002 = \<lparr> opt_id = ''opt-002'', opt_stream = stream_export_gas,
     opt_title = ''Redistribute compressor load'', opt_status = pending,
     opt_priority = 9, opt_acknowledgedAt = None \<rparr>"

definition sample_response :: OptimisationResponse where
  "sample_response = \<lparr> optimisations = [opt_001, opt_002],
     summary = \<lparr> sum_total = 2, sum_pending = 1, sum_acknowledged = 1,
       sum_implemented = 0, sum_totalPotentialValue = 125000 \<rparr> \<rparr>"

definition update_for :: "string \<Rightarrow> OptimisationActionUpdate" where
  "update_for i = \<lparr> upd_id = i, upd_userId = Some ''user-1'', upd_comment = None \<rparr>"

text \<open>
  The keys \<open>useOptimisations\<close> (with no filter set), \<open>useAssetOptimisations('west')\<close>,
  \<open>useHighPriorityOptimisations\<close>, \<open>useSummary\<close> and an alerts query register.
\<close>

definition optimisations_key :: QueryKey where
  "optimisations_key = [JStr ''optimisations'',
     JObj [(''stream'', JStr ''all''), (''asset'', JStr ''all''),
           (''status'', JStr ''all''), (''priority'', JStr ''all'')]]"


definition high_priority_key :: QueryKey where
  "high_priority_key = [JStr ''optimisations'', JStr ''high-priority'']"



definition fresh_query :: "QueryKey \<Rightarrow> 'd \<Rightarrow> 'd Query" where
  "fresh_query key d = \<lparr> q_key = key, q_data = Some d, q_isInvalidated = False \<rparr>"

text \<open>
  Both the list hook and the high-priority hook have fetched: the pending \<open>opt-002\<close> is
  in the response object and in the bare array.
\<close>

definition cache_with_array :: "OptimisationData QueryCache" where
  "cache_with_array =
     [fresh_query optimisations_key (ResponseData sample_response),
      fresh_query high_priority_key (ActionArray [opt_002])]"


section \<open>Event Notifier: \<open>handleMessage\<close> of \<open>useWebSocket\<close>\<close>












section \<open>Retry policies of the query hooks\<close>

text \<open>
  What a retry predicate can read of the error of a failed fetch: its \<open>message\<close> and,
  when the error object carries a response, the response status
  (\<open>error?.response?.status\<close>).
\<close>

record QueryError =
  qe_message :: string
  qe_status :: "nat option"

text \<open>
  The \<open>retry\<close> option of a query is a number or a predicate. After a failed attempt the
  library retries when the number of failures so far is below the number, or when the
  predicate says so.
\<close>

datatype RetryOption = RetryNumber nat | RetryFunction "nat \<Rightarrow> QueryError \<Rightarrow> bool"







text \<open>\<open>useOptimisations\<close>: \<open>retry: 2\<close>.\<close>

definition useOptimisations_retry :: RetryOption where
  "useOptimisations_retry = RetryNumber 2"

section \<open>Properties of the Gap Driver Engine\<close>
















section \<open>Properties of ingestion\<close>

subsection \<open>How parsing proceeds and fails\<close>

lemma bindE_Inr_iff: "bindE r f = Inr y \<longleftrightarrow> (\<exists>x. r = Inr x \<and> f x = Inr y)"
  by (cases r) (simp_all add: bindE_def)

lemma bindE_isl_left: "isl r \<Longrightarrow> isl (bindE r f)"
  by (cases r) (simp_all add: bindE_def)

lemma bindE_islI: "(\<And>x. r = Inr x \<Longrightarrow> isl (f x)) \<Longrightarrow> isl (bindE r f)"
  by (cases r) (simp_all add: bindE_def)

lemma not_isl_projr: "\<not> isl r \<Longrightarrow> r = Inr (projr r)"
  by (cases r) simp_all

lemma z_elements_isl:
  "j \<in> set js \<Longrightarrow> isl (schema (Some j)) \<Longrightarrow> isl (z_elements schema js)"
proof (induction js)
  case Nil
  then show ?case by simp
next
  case (Cons a js)
  show ?case
  proof (cases "schema (Some a)")
    case (Inl e)
    then show ?thesis by (simp add: bindE_def)
  next
    case (Inr x)
    with Cons have "isl (z_elements schema js)" by auto
    then show ?thesis using Inr by (cases "z_elements schema js") (simp_all add: bindE_def)
  qed
qed

lemma z_elements_all:
  "z_elements schema js = Inr xs \<Longrightarrow> x \<in> set xs \<Longrightarrow> \<exists>j \<in> set js. schema (Some j) = Inr x"
  by (induction js arbitrary: xs) (auto simp: bindE_Inr_iff)

lemma z_array_default_empty_all:
  assumes "z_array_default_empty schema j = Inr xs" "x \<in> set xs"
  shows "\<exists>e. schema (Some e) = Inr x"
  using assms
  by (auto simp: z_array_default_empty_def split: option.splits json.splits
      dest: z_elements_all)

lemma z_array_all:
  assumes "z_array schema j = Inr xs" "x \<in> set xs"
  shows "\<exists>e. schema (Some e) = Inr x"
  using assms
  by (auto simp: z_array_def split: option.splits json.splits dest: z_elements_all)

lemma z_array_default_empty_isl:
  "e \<in> set (elements j) \<Longrightarrow> isl (schema (Some e)) \<Longrightarrow> isl (z_array_default_empty schema j)"
  by (auto simp: elements_def z_array_default_empty_def split: option.splits json.splits
      intro: z_elements_isl)

lemma z_array_isl:
  "e \<in> set (elements j) \<Longrightarrow> isl (schema (Some e)) \<Longrightarrow> isl (z_array schema j)"
  by (auto simp: elements_def z_array_def split: option.splits json.splits
      intro: z_elements_isl)

subsection \<open>Deferment\<close>

lemma z_nonnegative_default0_Inr:
  "z_nonnegative_default0 j = Inr x \<Longrightarrow>
     0 \<le> x \<and> x = (case j of Some (JNum d) \<Rightarrow> d | _ \<Rightarrow> 0)"
  by (auto simp: z_nonnegative_default0_def split: option.splits json.splits if_splits)

lemma NetworkMetricsSchema_deferment:
  assumes "NetworkMetricsSchema (Some (JObj mkv)) = Inr m"
  shows "nm_deferment m = supplied_deferment mkv \<and> 0 \<le> nm_deferment m"
proof -
  from assms obtain d where
    d: "z_nonnegative_default0 (property mkv ''deferment'') = Inr d" and m: "nm_deferment m = d"
    unfolding NetworkMetricsSchema_def by (auto simp: bindE_Inr_iff)
  from z_nonnegative_default0_Inr [OF d] m show ?thesis
    by (simp add: supplied_deferment_def)
qed

lemma z_optional_Some:
  "z_optional schema (Some j) = Inr r \<Longrightarrow> \<exists>m. r = Some m \<and> schema (Some j) = Inr m"
  by (auto simp: z_optional_def bindE_Inr_iff)

lemma networks_object_entry:
  assumes "networks_object (Some (JObj nkv)) = Inr n"
    and "property nkv (key_str k) = Some j"
  shows "\<exists>m. network_of k n = Some m \<and> NetworkMetricsSchema (Some j) = Inr m"
proof -
  from assms(1) obtain a b c d where
    p: "z_optional NetworkMetricsSchema (property nkv ''oil'') = Inr a"
       "z_optional NetworkMetricsSchema (property nkv ''domesticGas'') = Inr b"
       "z_optional NetworkMetricsSchema (property nkv ''exportGas'') = Inr c"
       "z_optional NetworkMetricsSchema (property nkv ''flaredGas'') = Inr d"
    and n: "n = \<lparr> nw_oil = a, nw_domesticGas = b, nw_exportGas = c, nw_flaredGas = d \<rparr>"
    unfolding networks_object_def by (auto simp: bindE_Inr_iff)
  show ?thesis
    using p assms(2) by (cases k) (auto simp: n network_of_def dest: z_optional_Some)
qed

lemma flared_transform_deferment:
  assumes "network_of k n = Some m"
  shows "\<exists>m'. network_of k (flared_transform n) = Some m' \<and> nm_deferment m' = nm_deferment m"
  using assms
  by (cases k) (auto simp: network_of_def flared_transform_def spread_metrics_def Let_def)

text \<open>
  Claim C1, as the schemas behave. After a facility of the feed has been parsed, every
  network entry the feed gave it carries the deferment the feed supplied, which is not
  negative, and 0 when the feed supplied none. The deferment is not recomputed from
  \<open>businessTarget\<close> and \<open>currentProduction\<close>.
\<close>

theorem deferment_as_supplied:
  assumes "FacilityRefSchema (Some (JObj fkv)) = Inr f"
    and "property fkv ''networks'' = Some (JObj nkv)"
    and "property nkv (key_str k) = Some (JObj mkv)"
  shows "\<exists>m. network_of k (fr_networks f) = Some m
           \<and> nm_deferment m = supplied_deferment mkv \<and> 0 \<le> nm_deferment m"
proof -
  from assms(1,2) obtain n where
    n: "FacilityNetworksSchema (Some (JObj nkv)) = Inr n" and f: "fr_networks f = n"
    unfolding FacilityRefSchema_def by (auto simp: bindE_Inr_iff)
  from n obtain n0 where
    n0: "networks_object (Some (JObj nkv)) = Inr n0" and t: "n = flared_transform n0"
    unfolding FacilityNetworksSchema_def by (auto simp: bindE_Inr_iff)
  from networks_object_entry [OF n0 assms(3)] obtain m0 where
    m0: "network_of k n0 = Some m0" "NetworkMetricsSchema (Some (JObj mkv)) = Inr m0"
    by blast
  from flared_transform_deferment [OF m0(1)] obtain m where
    m: "network_of k (flared_transform n0) = Some m" "nm_deferment m = nm_deferment m0"
    by blast
  from NetworkMetricsSchema_deferment [OF m0(2)] m f t show ?thesis by simp
qed

theorem deferment_as_supplied_witness:
  "\<exists>f m. FacilityRefSchema (Some flowstation_001_payload) = Inr f
         \<and> network_of oil (fr_networks f) = Some m \<and> nm_deferment m = 1200"
proof -
  have "\<not> isl (FacilityRefSchema (Some (JObj flowstation_001_properties)))" by code_simp
  then obtain f where f: "FacilityRefSchema (Some (JObj flowstation_001_properties)) = Inr f"
    using not_isl_projr by blast
  have n: "property flowstation_001_properties ''networks'' = Some (JObj flowstation_001_networks)"
    by code_simp
  have o: "property flowstation_001_networks (key_str oil) = Some (JObj flowstation_001_oil)"
    by code_simp
  have s: "supplied_deferment flowstation_001_oil = 1200" by code_simp
  from deferment_as_supplied [OF f n o] s f show ?thesis
    by (auto simp: flowstation_001_payload_def)
qed

text \<open>
  Where claim C1 as worded fails: \<open>flowstation-001\<close> of the assets mock has a business
  target of 4200, a current production of 3800 and a supplied deferment of 1200. After
  parsing the deferment is still 1200, not \<open>max(0, 4200 - 3800) = 400\<close>.
\<close>

theorem deferment_recomputed_counterexample:
  "map_sum id (\<lambda>f. map_option
        (\<lambda>m. (nm_businessTarget m, nm_currentProduction m, nm_deferment m))
        (nw_oil (fr_networks f)))
     (FacilityRefSchema (Some flowstation_001_payload)) = Inr (Some (4200, 3800, 1200))
   \<and> max 0 (4200 - 3800) \<noteq> (1200 :: rat)"
  by code_simp

subsection \<open>Flared gas\<close>

lemma flared_transform_flared: "\<exists>m. nw_flaredGas (flared_transform n) = Some m"
  by (simp add: flared_transform_def Let_def)

lemma FacilityNetworksSchema_flared:
  "FacilityNetworksSchema j = Inr n \<Longrightarrow> \<exists>m. nw_flaredGas n = Some m"
  by (auto simp: FacilityNetworksSchema_def bindE_Inr_iff flared_transform_flared)

lemma UnitNetworksSchema_flared:
  "UnitNetworksSchema j = Inr n \<Longrightarrow> \<exists>m. nw_flaredGas n = Some m"
  by (auto simp: UnitNetworksSchema_def bindE_Inr_iff flared_transform_flared)

lemma FacilityRefSchema_flared:
  "FacilityRefSchema j = Inr f \<Longrightarrow> \<exists>m. nw_flaredGas (fr_networks f) = Some m"
  by (auto simp: FacilityRefSchema_def bindE_Inr_iff
      split: option.splits json.splits dest: FacilityNetworksSchema_flared)

lemma ProductionUnitSchema_flared:
  assumes "ProductionUnitSchema j = Inr u"
  shows "\<exists>m. nw_flaredGas (pu_networks u) = Some m"
    and "\<forall>f \<in> set (pu_facilities u). \<exists>m. nw_flaredGas (fr_networks f) = Some m"
proof -
  from assms obtain kv where j: "j = Some (JObj kv)"
    by (auto simp: ProductionUnitSchema_def split: option.splits json.splits)
  from assms obtain fs n where
    fs: "z_array_default_empty FacilityRefSchema (property kv ''facilities'') = Inr fs"
    and n: "UnitNetworksSchema (property kv ''networks'') = Inr n"
    and u: "pu_facilities u = fs" "pu_networks u = n"
    unfolding j ProductionUnitSchema_def by (auto simp: bindE_Inr_iff)
  show "\<exists>m. nw_flaredGas (pu_networks u) = Some m"
    using n u UnitNetworksSchema_flared by simp
  show "\<forall>f \<in> set (pu_facilities u). \<exists>m. nw_flaredGas (fr_networks f) = Some m"
    using z_array_default_empty_all [OF fs] u FacilityRefSchema_flared by blast
qed

lemma AssetItemSchema_units:
  assumes "AssetItemSchema j = Inr a" "u \<in> set (ai_productionUnits a)"
  shows "\<exists>e. ProductionUnitSchema (Some e) = Inr u"
proof -
  from assms obtain kv where j: "j = Some (JObj kv)"
    by (auto simp: AssetItemSchema_def split: option.splits json.splits)
  from assms obtain us where
    us: "z_array_default_empty ProductionUnitSchema (property kv ''productionUnits'') = Inr us"
    and a: "ai_productionUnits a = us"
    unfolding j AssetItemSchema_def by (auto simp: bindE_Inr_iff)
  show ?thesis using z_array_default_empty_all [OF us] assms(2) a by simp
qed

lemma AssetsResponseSchema_assets:
  assumes "AssetsResponseSchema j = Inr r" "a \<in> set (ar_assets r)"
  shows "\<exists>e. AssetItemSchema (Some e) = Inr a"
proof -
  from assms obtain kv where j: "j = Some (JObj kv)"
    by (auto simp: AssetsResponseSchema_def split: option.splits json.splits)
  from assms obtain as where
    as: "z_array AssetItemSchema (property kv ''assets'') = Inr as"
    and a: "ar_assets r = as"
    unfolding j AssetsResponseSchema_def by (auto simp: bindE_Inr_iff)
  show ?thesis using z_array_all [OF as] assms(2) a by simp
qed

lemma NetworkMetricsSchema_default:
  "NetworkMetricsSchema (Some DEFAULT_FLARED_GAS_METRICS_input) = Inr DEFAULT_FLARED_GAS_METRICS"
  by (simp add: NetworkMetricsSchema_def DEFAULT_FLARED_GAS_METRICS_input_def
      DEFAULT_FLARED_GAS_METRICS_def property_def bindE_def z_nonnegative_default0_def
      z_string_default_def z_enum_default_def z_enum_def TrendSchema_table_def
      z_number_default_def)

lemma spread_default: "spread_metrics b DEFAULT_FLARED_GAS_METRICS = DEFAULT_FLARED_GAS_METRICS"
  by (simp add: spread_metrics_def DEFAULT_FLARED_GAS_METRICS_def)

lemma networks_default:
  "networks_object (Some default_networks_input) =
     Inr \<lparr> nw_oil = None, nw_domesticGas = None, nw_exportGas = None,
           nw_flaredGas = Some DEFAULT_FLARED_GAS_METRICS \<rparr>"
  by (simp add: networks_object_def default_networks_input_def property_def bindE_def
      z_optional_def NetworkMetricsSchema_default)

lemma networks_object_absent:
  "networks_object (Some (JObj kv)) = Inr n \<Longrightarrow> property kv ''flaredGas'' = None \<Longrightarrow>
     nw_flaredGas n = None"
  by (auto simp: networks_object_def bindE_Inr_iff z_optional_def)

lemma FacilityNetworksSchema_absent:
  "FacilityNetworksSchema (Some (JObj kv)) = Inr n \<Longrightarrow> property kv ''flaredGas'' = None \<Longrightarrow>
     nw_flaredGas n = Some DEFAULT_FLARED_GAS_METRICS"
  by (auto simp: FacilityNetworksSchema_def bindE_Inr_iff flared_transform_def spread_default
      dest: networks_object_absent)

lemma FacilityNetworksSchema_default_input:
  "FacilityNetworksSchema (Some default_networks_input) =
     Inr \<lparr> nw_oil = None, nw_domesticGas = None, nw_exportGas = None,
           nw_flaredGas = Some DEFAULT_FLARED_GAS_METRICS \<rparr>"
  by (simp add: FacilityNetworksSchema_def networks_default bindE_def flared_transform_def
      spread_default)

lemma UnitNetworksSchema_undefined:
  "UnitNetworksSchema None =
     Inr \<lparr> nw_oil = None, nw_domesticGas = None, nw_exportGas = None,
           nw_flaredGas = Some DEFAULT_FLARED_GAS_METRICS \<rparr>"
  by (simp add: UnitNetworksSchema_def networks_default bindE_def flared_transform_def
      spread_default)

lemma UnitNetworksSchema_absent:
  "UnitNetworksSchema (Some (JObj kv)) = Inr n \<Longrightarrow> property kv ''flaredGas'' = None \<Longrightarrow>
     nw_flaredGas n = Some DEFAULT_FLARED_GAS_METRICS"
  by (auto simp: UnitNetworksSchema_def bindE_Inr_iff flared_transform_def spread_default
      dest: networks_object_absent)

lemma FacilityRef_lacking_flared:
  assumes "FacilityRefSchema (Some (JObj fkv)) = Inr f"
    and "source_lacks_flaredGas (property fkv ''networks'')"
  shows "nw_flaredGas (fr_networks f) = Some DEFAULT_FLARED_GAS_METRICS"
proof -
  from assms(1) obtain n where
    n: "FacilityNetworksSchema (case property fkv ''networks'' of
          None \<Rightarrow> Some default_networks_input | Some n \<Rightarrow> Some n) = Inr n"
    and f: "fr_networks f = n"
    unfolding FacilityRefSchema_def by (auto simp: bindE_Inr_iff)
  show ?thesis
  proof (cases "property fkv ''networks''")
    case None
    with n f show ?thesis by (auto simp: FacilityNetworksSchema_default_input)
  next
    case (Some j)
    with assms(2) obtain kv where j: "j = JObj kv" "property kv ''flaredGas'' = None"
      by (auto simp: source_lacks_flaredGas_def split: json.splits)
    with n f Some show ?thesis by (auto dest: FacilityNetworksSchema_absent)
  qed
qed

lemma ProductionUnit_lacking_flared:
  assumes "ProductionUnitSchema (Some (JObj ukv)) = Inr u"
    and "source_lacks_flaredGas (property ukv ''networks'')"
  shows "nw_flaredGas (pu_networks u) = Some DEFAULT_FLARED_GAS_METRICS"
proof -
  from assms(1) obtain n where
    n: "UnitNetworksSchema (property ukv ''networks'') = Inr n"
    and u: "pu_networks u = n"
    unfolding ProductionUnitSchema_def by (auto simp: bindE_Inr_iff)
  show ?thesis
  proof (cases "property ukv ''networks''")
    case None
    with n u show ?thesis by (auto simp: UnitNetworksSchema_undefined)
  next
    case (Some j)
    with assms(2) obtain kv where j: "j = JObj kv" "property kv ''flaredGas'' = None"
      by (auto simp: source_lacks_flaredGas_def split: json.splits)
    with n u Some show ?thesis by (auto dest: UnitNetworksSchema_absent)
  qed
qed

text \<open>
  Claim C2. In every assets payload that \<open>useAssets\<close> accepts, every production unit and
  every facility of every unit has a \<open>flaredGas\<close> entry. Where the source of a unit or of
  a facility has no networks object, or one without a \<open>flaredGas\<close> key, that entry is
  the default: zero capacity, target, production and deferment, unit \<open>mcf/d\<close>, trend
  \<open>stable\<close>, zero change.
\<close>

theorem flared_gas_always_present:
  "(useAssets_queryFn data = Inr r \<longrightarrow> a \<in> set (ar_assets r) \<longrightarrow>
      u \<in> set (ai_productionUnits a) \<longrightarrow>
      (\<exists>m. nw_flaredGas (pu_networks u) = Some m) \<and>
      (\<forall>f \<in> set (pu_facilities u). \<exists>m. nw_flaredGas (fr_networks f) = Some m))
   \<and> (ProductionUnitSchema (Some (JObj ukv)) = Inr u' \<longrightarrow>
        source_lacks_flaredGas (property ukv ''networks'') \<longrightarrow>
        nw_flaredGas (pu_networks u') = Some DEFAULT_FLARED_GAS_METRICS)
   \<and> (FacilityRefSchema (Some (JObj fkv)) = Inr f' \<longrightarrow>
        source_lacks_flaredGas (property fkv ''networks'') \<longrightarrow>
        nw_flaredGas (fr_networks f') = Some DEFAULT_FLARED_GAS_METRICS)
   \<and> DEFAULT_FLARED_GAS_METRICS =
        \<lparr> nm_maxCapacity = 0, nm_businessTarget = 0, nm_currentProduction = 0,
          nm_deferment = 0, nm_unit = ''mcf/d'', nm_trend = trend_stable,
          nm_changePercent = 0 \<rparr>"
proof -
  have 1: "(\<exists>m. nw_flaredGas (pu_networks u) = Some m) \<and>
      (\<forall>f \<in> set (pu_facilities u). \<exists>m. nw_flaredGas (fr_networks f) = Some m)"
    if r: "useAssets_queryFn data = Inr r" and a: "a \<in> set (ar_assets r)"
      and u: "u \<in> set (ai_productionUnits a)"
  proof -
    from r have "AssetsResponseSchema (Some data) = Inr r" by (simp add: useAssets_queryFn_def)
    from AssetsResponseSchema_assets [OF this a] obtain ea where
      "AssetItemSchema (Some ea) = Inr a" by blast
    from AssetItemSchema_units [OF this u] obtain eu where
      "ProductionUnitSchema (Some eu) = Inr u" by blast
    from ProductionUnitSchema_flared [OF this] show ?thesis by auto
  qed
  show ?thesis
    using 1 ProductionUnit_lacking_flared FacilityRef_lacking_flared
    by (simp add: DEFAULT_FLARED_GAS_METRICS_def)
qed

theorem flared_gas_always_present_witness:
  "(let r = projr (useAssets_queryFn (hierarchy_payload bare_facility));
        u = hd (ai_productionUnits (hd (ar_assets r)))
    in useAssets_queryFn (hierarchy_payload bare_facility) = Inr r
       \<and> nw_flaredGas (pu_networks u) = Some DEFAULT_FLARED_GAS_METRICS
       \<and> list_all (\<lambda>f. \<exists>m. nw_flaredGas (fr_networks f) = Some m) (pu_facilities u)
       \<and> length (pu_facilities u) = 2)
   \<and> nw_flaredGas (fr_networks (projr (FacilityRefSchema (Some bare_facility))))
       = Some DEFAULT_FLARED_GAS_METRICS"
proof -
  let ?data = "hierarchy_payload bare_facility"
  let ?r = "projr (useAssets_queryFn ?data)"
  let ?a = "hd (ar_assets ?r)"
  let ?u = "hd (ai_productionUnits ?a)"
  let ?ukv = "sample_unit_properties bare_facility"
  let ?u' = "projr (ProductionUnitSchema (Some (JObj ?ukv)))"
  let ?f' = "projr (FacilityRefSchema (Some (JObj bare_facility_properties)))"
  have "\<not> isl (useAssets_queryFn ?data)" by code_simp
  then have r: "useAssets_queryFn ?data = Inr ?r" by (rule not_isl_projr)
  have a: "?a \<in> set (ar_assets ?r)" by code_simp
  have u: "?u \<in> set (ai_productionUnits ?a)" by code_simp
  have "\<not> isl (ProductionUnitSchema (Some (JObj ?ukv)))" by code_simp
  then have u': "ProductionUnitSchema (Some (JObj ?ukv)) = Inr ?u'" by (rule not_isl_projr)
  have lu: "source_lacks_flaredGas (property ?ukv ''networks'')" by code_simp
  have "\<not> isl (FacilityRefSchema (Some (JObj bare_facility_properties)))" by code_simp
  then have f': "FacilityRefSchema (Some (JObj bare_facility_properties)) = Inr ?f'"
    by (rule not_isl_projr)
  have lf: "source_lacks_flaredGas (property bare_facility_properties ''networks'')"
    by code_simp
  have same: "?u = ?u'" by code_simp
  have len: "length (pu_facilities ?u) = 2" by code_simp
  from flared_gas_always_present [of ?data ?r ?a ?u ?ukv ?u' bare_facility_properties ?f']
    r a u u' lu f' lf same len
  show ?thesis
    by (simp add: Let_def list_all_iff bare_facility_def)
qed

subsection \<open>A facility without a type\<close>

lemma FacilityRefSchema_untyped:
  assumes "obj_prop j ''type'' = None"
  shows "isl (FacilityRefSchema (Some j))"
proof (cases j)
  case (JObj kv)
  with assms have t: "isl (z_enum FacilityTypeSchema_table (property kv ''type''))"
    by (simp add: obj_prop_def z_enum_def)
  show ?thesis unfolding JObj FacilityRefSchema_def
    by (simp, intro bindE_islI bindE_isl_left t)
qed (simp_all add: FacilityRefSchema_def)

lemma ProductionUnitSchema_bad_facility:
  assumes "f \<in> set (elements (obj_prop u ''facilities''))" "isl (FacilityRefSchema (Some f))"
  shows "isl (ProductionUnitSchema (Some u))"
proof (cases u)
  case (JObj kv)
  with assms have t: "isl (z_array_default_empty FacilityRefSchema (property kv ''facilities''))"
    by (auto simp: obj_prop_def intro: z_array_default_empty_isl)
  show ?thesis unfolding JObj ProductionUnitSchema_def
    by (simp, intro bindE_islI bindE_isl_left t)
qed (simp_all add: ProductionUnitSchema_def)

lemma AssetItemSchema_bad_unit:
  assumes "u \<in> set (elements (obj_prop a ''productionUnits''))"
    and "isl (ProductionUnitSchema (Some u))"
  shows "isl (AssetItemSchema (Some a))"
proof (cases a)
  case (JObj kv)
  with assms have
    t: "isl (z_array_default_empty ProductionUnitSchema (property kv ''productionUnits''))"
    by (auto simp: obj_prop_def intro: z_array_default_empty_isl)
  show ?thesis unfolding JObj AssetItemSchema_def
    by (simp, intro bindE_islI bindE_isl_left t)
qed (simp_all add: AssetItemSchema_def)

lemma AssetsResponseSchema_bad_asset:
  assumes "a \<in> set (elements (obj_prop data ''assets''))" "isl (AssetItemSchema (Some a))"
  shows "isl (AssetsResponseSchema (Some data))"
proof (cases data)
  case (JObj kv)
  with assms have t: "isl (z_array AssetItemSchema (property kv ''assets''))"
    by (auto simp: obj_prop_def intro: z_array_isl)
  show ?thesis unfolding JObj AssetsResponseSchema_def
    by (simp, intro bindE_islI bindE_isl_left t)
qed (simp_all add: AssetsResponseSchema_def)

lemma FacilityRefSchema_ignores_unitId:
  "FacilityRefSchema (Some (JObj ((''unitId'', v) # kv))) = FacilityRefSchema (Some (JObj kv))"
  by (simp add: FacilityRefSchema_def property_def)

text \<open>
  Claim C8, as the schemas behave. When any facility of a hierarchy payload has no
  \<open>type\<close>, validation fails for the payload as a whole: the query function of
  \<open>useAssets\<close> throws and returns no hierarchy, so nothing is dropped and nothing is
  kept. A \<open>unitId\<close> is not a field of \<open>FacilityRefSchema\<close>: a facility parses the same
  with or without one.
\<close>

theorem facility_without_type_rejects_payload:
  "(f \<in> set (payload_facilities data) \<and> obj_prop f ''type'' = None \<longrightarrow>
      isl (useAssets_queryFn data))
   \<and> FacilityRefSchema (Some (JObj ((''unitId'', v) # kv))) = FacilityRefSchema (Some (JObj kv))"
proof -
  have "isl (useAssets_queryFn data)"
    if f: "f \<in> set (payload_facilities data)" and t: "obj_prop f ''type'' = None"
  proof -
    from f obtain a u where
      a: "a \<in> set (elements (obj_prop data ''assets''))"
      and u: "u \<in> set (elements (obj_prop a ''productionUnits''))"
      and fu: "f \<in> set (elements (obj_prop u ''facilities''))"
      by (auto simp: payload_facilities_def payload_units_def)
    have "isl (FacilityRefSchema (Some f))" using t by (rule FacilityRefSchema_untyped)
    with fu have "isl (ProductionUnitSchema (Some u))" by (rule ProductionUnitSchema_bad_facility)
    with u have "isl (AssetItemSchema (Some a))" by (rule AssetItemSchema_bad_unit)
    with a have "isl (AssetsResponseSchema (Some data))" by (rule AssetsResponseSchema_bad_asset)
    then show ?thesis by (simp add: useAssets_queryFn_def)
  qed
  then show ?thesis by (simp add: FacilityRefSchema_ignores_unitId)
qed

theorem facility_without_type_rejects_payload_witness:
  "untyped_facility \<in> set (payload_facilities (hierarchy_payload untyped_facility))
   \<and> obj_prop untyped_facility ''type'' = None
   \<and> isl (useAssets_queryFn (hierarchy_payload untyped_facility))"
proof -
  have f: "untyped_facility \<in> set (payload_facilities (hierarchy_payload untyped_facility))"
    by code_simp
  have t: "obj_prop untyped_facility ''type'' = None" by code_simp
  from facility_without_type_rejects_payload
    [of untyped_facility "hierarchy_payload untyped_facility"] f t
  show ?thesis by simp
qed

text \<open>
  Where claim C8 as worded fails: a payload whose unit lists \<open>flowstation-001\<close> and a
  facility without a type is rejected with a validation error, while the same payload
  with the second facility typed parses into a unit of two facilities. No hierarchy with
  the one good facility comes back.
\<close>

theorem dropped_facility_counterexample:
  "useAssets_queryFn (hierarchy_payload untyped_facility) = Inl invalid_type
   \<and> map_sum id (\<lambda>r. map (\<lambda>a. map (\<lambda>u. map fr_id (pu_facilities u)) (ai_productionUnits a))
                       (ar_assets r))
       (useAssets_queryFn (hierarchy_payload bare_facility))
       = Inr [[[''flowstation-001'', ''gasplant-009'']]]"
  by code_simp

section \<open>Properties of the optimistic mutations\<close>



subsection \<open>Updates and rollbacks on a cache with distinct keys\<close>

lemma list_ex_key: "list_ex (\<lambda>q. q_key q = key) cache \<longleftrightarrow> key \<in> q_key ` set cache"
  by (auto simp: list_ex_iff)

lemma setQueryData_present:
  assumes "key \<in> q_key ` set cache"
  shows "setQueryData key data cache =
           map (\<lambda>q. if q_key q = key
                     then (case data of None \<Rightarrow> q
                           | Some d \<Rightarrow> q \<lparr> q_data := Some d, q_isInvalidated := False \<rparr>)
                     else q) cache"
proof (cases data)
  case None
  then show ?thesis by (simp add: setQueryData_def map_idI)
next
  case (Some d)
  then show ?thesis using assms by (simp add: setQueryData_def list_ex_key)
qed

lemma keys_setQueryData_present:
  "key \<in> q_key ` set cache \<Longrightarrow> map q_key (setQueryData key data cache) = map q_key cache"
  by (simp add: setQueryData_present split: option.splits)

lemma find_distinct_key:
  "distinct (map q_key cache) \<Longrightarrow> q \<in> set cache \<Longrightarrow>
     find (\<lambda>p. q_key p = q_key q) cache = Some q"
  by (induction cache) auto

lemma getQueryData_distinct:
  "distinct (map q_key cache) \<Longrightarrow> q \<in> set cache \<Longrightarrow> getQueryData (q_key q) cache = q_data q"
  by (simp add: getQueryData_def find_distinct_key)

lemma apply_updater_key [simp]: "q_key (apply_updater updater q) = q_key q"
  by (simp add: apply_updater_def split: sum.splits option.splits)

lemma restore_entry_key [simp]: "q_key (restore_entry prev q) = q_key q"
  by (simp add: restore_entry_def split: option.splits)

lemma update_each_total:
  assumes "distinct (map q_key cache)" "distinct keys" "set keys \<subseteq> q_key ` set cache"
    and "\<forall>q \<in> set cache. q_key q \<in> set keys \<longrightarrow> \<not> isl (updater (q_data q))"
  shows "update_each updater keys cache =
           (map (\<lambda>q. if q_key q \<in> set keys then apply_updater updater q else q) cache, None)"
  using assms
proof (induction keys arbitrary: cache)
  case Nil
  then show ?case by (simp add: map_idI)
next
  case (Cons key keys)
  from Cons.prems(3) obtain q where q: "q \<in> set cache" "q_key q = key" by auto
  have g: "getQueryData key cache = q_data q"
    using getQueryData_distinct [OF Cons.prems(1) q(1)] q(2) by simp
  from Cons.prems(4) q obtain data where data: "updater (q_data q) = Inr data"
    by (cases "updater (q_data q)") auto
  let ?c = "setQueryData key data cache"
  have present: "key \<in> q_key ` set cache" using q by auto
  have c: "?c = map (\<lambda>p. if q_key p = key then apply_updater updater p else p) cache"
  proof -
    have "\<And>p. p \<in> set cache \<Longrightarrow> q_key p = key \<Longrightarrow> p = q"
      using Cons.prems(1) q by (metis distinct_map inj_onD)
    then have "\<And>p. p \<in> set cache \<Longrightarrow> q_key p = key \<Longrightarrow> updater (q_data p) = Inr data"
      using data by blast
    then show ?thesis
      unfolding setQueryData_present [OF present]
      by (intro map_cong refl) (simp add: apply_updater_def split: option.splits)
  qed
  have keys_c: "map q_key ?c = map q_key cache"
    by (rule keys_setQueryData_present [OF present])
  have notin: "key \<notin> set keys" using Cons.prems(2) by simp
  have ih: "update_each updater keys ?c =
           (map (\<lambda>q. if q_key q \<in> set keys then apply_updater updater q else q) ?c, None)"
  proof (rule Cons.IH)
    show "distinct (map q_key ?c)" using keys_c Cons.prems(1) by simp
    show "distinct keys" using Cons.prems(2) by simp
    show "set keys \<subseteq> q_key ` set ?c"
      using Cons.prems(3) keys_c by (metis list.set_map set_subset_Cons subset_trans)
    show "\<forall>q \<in> set ?c. q_key q \<in> set keys \<longrightarrow> \<not> isl (updater (q_data q))"
      using Cons.prems(4) notin unfolding c by auto
  qed
  have "map (\<lambda>q. if q_key q \<in> set keys then apply_updater updater q else q) ?c
      = map (\<lambda>q. if q_key q \<in> set (key # keys) then apply_updater updater q else q) cache"
    unfolding c using notin by (auto simp: comp_def)
  with ih show ?case by (simp add: g data)
qed

lemma findAll_keys:
  "q \<in> set cache \<Longrightarrow>
     q_key q \<in> set (map q_key (findAll filterKey cache))
       \<longleftrightarrow> partialMatchKey (q_key q) filterKey"
  by (auto simp: findAll_def)

lemma setQueriesData_total:
  assumes "distinct (map q_key cache)"
    and "\<forall>q \<in> set cache. partialMatchKey (q_key q) filterKey \<longrightarrow> \<not> isl (updater (q_data q))"
  shows "setQueriesData filterKey updater cache =
           (map (\<lambda>q. if partialMatchKey (q_key q) filterKey
                      then apply_updater updater q else q) cache, None)"
proof -
  let ?keys = "map q_key (findAll filterKey cache)"
  have d: "distinct ?keys"
    using assms(1) unfolding findAll_def by (rule distinct_map_filter)
  have s: "set ?keys \<subseteq> q_key ` set cache" by (auto simp: findAll_def)
  have u: "\<forall>q \<in> set cache. q_key q \<in> set ?keys \<longrightarrow> \<not> isl (updater (q_data q))"
    using assms(2) findAll_keys by blast
  have "update_each updater ?keys cache =
          (map (\<lambda>q. if q_key q \<in> set ?keys then apply_updater updater q else q) cache, None)"
    by (rule update_each_total [OF assms(1) d s u])
  moreover have "map (\<lambda>q. if q_key q \<in> set ?keys then apply_updater updater q else q) cache
      = map (\<lambda>q. if partialMatchKey (q_key q) filterKey then apply_updater updater q else q) cache"
    by (intro map_cong refl) (simp only: findAll_keys)
  ultimately show ?thesis by (simp add: setQueriesData_def)
qed

lemma fold_setQueryData:
  assumes "distinct (map fst previousData)" "fst ` set previousData \<subseteq> q_key ` set cache"
  shows "fold (\<lambda>entry c. setQueryData (fst entry) (snd entry) c) previousData cache =
           map (restore_entry previousData) cache"
  using assms
proof (induction previousData arbitrary: cache)
  case Nil
  then show ?case by (simp add: restore_entry_def map_idI)
next
  case (Cons e prev)
  obtain k d where e: "e = (k, d)" by (cases e)
  have present: "k \<in> q_key ` set cache" using Cons.prems(2) e by auto
  let ?c = "setQueryData k d cache"
  have keys_c: "map q_key ?c = map q_key cache"
    by (rule keys_setQueryData_present [OF present])
  have notin: "k \<notin> fst ` set prev" using Cons.prems(1) e by auto
  have ih: "fold (\<lambda>entry c. setQueryData (fst entry) (snd entry) c) prev ?c =
              map (restore_entry prev) ?c"
  proof (rule Cons.IH)
    show "distinct (map fst prev)" using Cons.prems(1) by simp
    show "fst ` set prev \<subseteq> q_key ` set ?c"
      using Cons.prems(2) keys_c by (metis image_mono list.set_map set_subset_Cons subset_trans)
  qed
  have m: "map_of prev k = None" using notin by (simp add: map_of_eq_None_iff)
  have "map (restore_entry prev) ?c = map (restore_entry (e # prev)) cache"
    unfolding setQueryData_present [OF present]
    by (auto simp: restore_entry_def e m split: option.splits)
  with ih show ?case by (simp add: e)
qed

lemma map_of_getQueriesData:
  assumes "distinct (map q_key cache)" "q \<in> set cache"
  shows "map_of (getQueriesData filterKey cache) (q_key q) =
           (if partialMatchKey (q_key q) filterKey then Some (q_data q) else None)"
proof (cases "partialMatchKey (q_key q) filterKey")
  case True
  have d: "distinct (map fst (getQueriesData filterKey cache))"
    using distinct_map_filter [OF assms(1)] by (simp add: getQueriesData_def findAll_def comp_def)
  have "(q_key q, q_data q) \<in> set (getQueriesData filterKey cache)"
    using assms(2) True by (auto simp: getQueriesData_def findAll_def)
  with d True show ?thesis by simp
next
  case False
  then have "q_key q \<notin> fst ` set (getQueriesData filterKey cache)"
    by (auto simp: getQueriesData_def findAll_def)
  with False show ?thesis by (simp add: map_of_eq_None_iff)
qed

subsection \<open>Acknowledge on caches of response objects\<close>

lemma acknowledge_updater_returns:
  "(case old of Some (ActionArray xs) \<Rightarrow> False | _ \<Rightarrow> True) \<Longrightarrow>
     \<not> isl (acknowledge_updater now update old)"
  by (auto simp: acknowledge_updater_def split: option.splits OptimisationData.splits)

lemma acknowledge_onMutate_response_shaped:
  assumes "distinct (map q_key cache)" "response_shaped cache"
  shows "acknowledge_onMutate now update cache =
           (map (\<lambda>q. if partialMatchKey (q_key q) [''optimisations'']
                      then apply_updater (acknowledge_updater now update) q else q) cache,
            Inr (getQueriesData [''optimisations''] cache))"
proof -
  have "\<forall>q \<in> set cache. partialMatchKey (q_key q) [''optimisations''] \<longrightarrow>
          \<not> isl (acknowledge_updater now update (q_data q))"
    using assms(2)
    by (auto simp: response_shaped_def list_all_iff intro!: acknowledge_updater_returns)
  from setQueriesData_total [OF assms(1) this] show ?thesis
    by (simp add: acknowledge_onMutate_def Let_def)
qed

lemma rollback_entry:
  assumes "distinct (map q_key cache)" "q \<in> set cache"
  shows "(let q1 = (if partialMatchKey (q_key q) [''optimisations'']
                    then apply_updater (acknowledge_updater now update) q else q);
              q2 = restore_entry (getQueriesData [''optimisations''] cache) q1
          in if partialMatchKey (q_key q2) [''optimisations'']
             then q2 \<lparr> q_isInvalidated := True \<rparr> else q2)
         = (if partialMatchKey (q_key q) [''optimisations'']
            then q \<lparr> q_isInvalidated := True \<rparr> else q)"
proof (cases "partialMatchKey (q_key q) [''optimisations'']")
  case True
  have m: "map_of (getQueriesData [''optimisations''] cache) (q_key q) = Some (q_data q)"
    using map_of_getQueriesData [OF assms] True by simp
  show ?thesis
  proof (cases "q_data q")
    case None
    then show ?thesis using True m
      by (simp add: Let_def restore_entry_def apply_updater_def acknowledge_updater_def)
  next
    case (Some d)
    then show ?thesis using True m
      by (simp add: Let_def restore_entry_def)
  qed
next
  case False
  have m: "map_of (getQueriesData [''optimisations''] cache) (q_key q) = None"
    using map_of_getQueriesData [OF assms] False by simp
  show ?thesis using False m by (simp add: Let_def restore_entry_def)
qed

text \<open>
  On a cache with no bare array under \<open>'optimisations'\<close>, a failed acknowledge leaves
  every query with the data it had before the mutation: the cache at the end is the
  cache at the start with the optimisations queries marked for refetching, and the error
  of the request is the result.
\<close>

lemma acknowledge_failure_restores:
  assumes "distinct (map q_key cache)" "response_shaped cache"
  shows "acknowledge_mutation now update (Inl e) cache =
           (invalidateQueries [''optimisations''] cache, Inl e)"
proof -
  let ?f1 = "\<lambda>q. if partialMatchKey (q_key q) [''optimisations'']
                      then apply_updater (acknowledge_updater now update) q else q"
  let ?prev = "getQueriesData [''optimisations''] cache"
  let ?c1 = "map ?f1 cache"
  have m: "acknowledge_onMutate now update cache = (?c1, Inr ?prev)"
    by (rule acknowledge_onMutate_response_shaped [OF assms])
  have keys1: "map q_key ?c1 = map q_key cache" by (simp add: comp_def)
  have d: "distinct (map fst ?prev)"
    using distinct_map_filter [OF assms(1)] by (simp add: getQueriesData_def findAll_def comp_def)
  have "fst ` set ?prev \<subseteq> q_key ` set cache"
    by (auto simp: getQueriesData_def findAll_def)
  also have "q_key ` set cache = q_key ` set ?c1"
    using keys1 by (metis list.set_map)
  finally have s: "fst ` set ?prev \<subseteq> q_key ` set ?c1" .
  have r: "onError (Some ?prev) ?c1 = map (restore_entry ?prev) ?c1"
    unfolding onError_def using fold_setQueryData [OF d s] by simp
  have "acknowledge_onSettled (onError (Some ?prev) ?c1)
          = invalidateQueries [''optimisations''] cache"
    unfolding r acknowledge_onSettled_def invalidateQueries_def map_map
  proof (rule map_cong [OF refl])
    fix q assume "q \<in> set cache"
    from rollback_entry [OF assms(1) this, of now update]
    show "((\<lambda>q. if partialMatchKey (q_key q) [''optimisations'']
                  then q\<lparr>q_isInvalidated := True\<rparr> else q) \<circ>
            (restore_entry ?prev \<circ> ?f1)) q =
          (if partialMatchKey (q_key q) [''optimisations'']
           then q\<lparr>q_isInvalidated := True\<rparr> else q)"
      by (simp only: Let_def comp_def)
  qed
  then show ?thesis by (simp add: acknowledge_mutation_def m Let_def)
qed

text \<open>
  On such a cache the optimistic update reaches every response that is cached: after
  \<open>onMutate\<close> each shows the target as acknowledged.
\<close>

lemma acknowledge_optimistic_status:
  assumes "distinct (map q_key cache)" "response_shaped cache"
    and "q \<in> set cache" "partialMatchKey (q_key q) [''optimisations'']"
    and "q_data q = Some (ResponseData r)"
  shows "\<exists>q' \<in> set (fst (acknowledge_onMutate now update cache)).
           q_key q' = q_key q \<and>
           q_data q' = Some (ResponseData (acknowledge_transform now update r)) \<and>
           (\<forall>opt \<in> set (optimisations (acknowledge_transform now update r)).
               opt_id opt = upd_id update \<longrightarrow> opt_status opt = acknowledged)"
proof -
  let ?q' = "apply_updater (acknowledge_updater now update) q"
  have "?q' \<in> set (fst (acknowledge_onMutate now update cache))"
    unfolding acknowledge_onMutate_response_shaped [OF assms(1,2)]
    using assms(3,4) by force
  moreover have "q_data ?q' = Some (ResponseData (acknowledge_transform now update r))"
    using assms(5) by (simp add: apply_updater_def acknowledge_updater_def)
  moreover have "\<forall>opt \<in> set (optimisations (acknowledge_transform now update r)).
               opt_id opt = upd_id update \<longrightarrow> opt_status opt = acknowledged"
    by (auto simp: acknowledge_transform_def)
  moreover have "q_key ?q' = q_key q" by simp
  ultimately show ?thesis by (intro bexI [of _ ?q'] conjI)
qed

text \<open>
  Claim C3 at a cache the hooks of this file build: \<open>useOptimisations\<close> and
  \<open>useHighPriorityOptimisations\<close> have both fetched, and the pending \<open>opt-002\<close> is
  acknowledged. The updater throws on the bare array of the high-priority query. So
  \<open>onMutate\<close> ends with a \<open>TypeError\<close>; the high-priority query still shows \<open>opt-002\<close> as
  pending; the request is never sent, and the mutation fails with the \<open>TypeError\<close>
  whatever the server would have answered; and the response object of the list query,
  updated before the throw, is not rolled back: after the failed mutation it still
  shows \<open>opt-002\<close> as acknowledged and a pending count of 0 where it was 1.
\<close>

theorem acknowledge_throws_on_high_priority_array:
  "snd (acknowledge_onMutate ''t'' (update_for ''opt-002'') cache_with_array) = Inl TypeError
   \<and> getQueryData high_priority_key
        (fst (acknowledge_onMutate ''t'' (update_for ''opt-002'') cache_with_array))
        = Some (ActionArray [opt_002])
   \<and> opt_status opt_002 = pending
   \<and> snd (acknowledge_mutation ''t'' (update_for ''opt-002'')
            (Inl (RequestFailed ''Server error'')) cache_with_array) = Inl TypeError
   \<and> snd (acknowledge_mutation ''t'' (update_for ''opt-002'')
            (Inr (opt_002 \<lparr> opt_status := acknowledged \<rparr>)) cache_with_array) = Inl TypeError
   \<and> getQueryData optimisations_key cache_with_array = Some (ResponseData sample_response)
   \<and> getQueryData optimisations_key
        (fst (acknowledge_mutation ''t'' (update_for ''opt-002'')
               (Inl (RequestFailed ''Server error'')) cache_with_array))
        = Some (ResponseData
            \<lparr> optimisations =
                [opt_001,
                 opt_002 \<lparr> opt_status := acknowledged, opt_acknowledgedAt := Some ''t'' \<rparr>],
              summary = \<lparr> sum_total = 2, sum_pending = 0, sum_acknowledged = 2,
                sum_implemented = 0, sum_totalPotentialValue = 125000 \<rparr> \<rparr>)"
  by code_simp

section \<open>Properties of the Event Notifier\<close>









section \<open>Properties of the retry policies\<close>








end
